theory Spec2Isabelle
  imports Main "HOL-Library.Sublist"
begin

text \<open>
  A shallow embedding of \<open>contact_book.py\<close>, a contact book kept in a JSON file: the
  class \<open>ContactBook\<close> with its methods, and as much of Python's library as the methods
  call (strings, dictionaries, the clock's format, the \<open>json\<close> module). The interactive
  menu of \<open>main\<close> is not part of it.
\<close>

section \<open>Python strings\<close>

text \<open>
  A Python \<open>str\<close> is modelled as a HOL \<open>string\<close>. A HOL character stands for the
  code point of the same number, so the model covers every text over the code points
  0..255 (ASCII and the Latin-1 supplement); on that range the library functions below
  agree with CPython's \<open>str.lower\<close>, \<open>str.isdigit\<close>, \<open>str.replace\<close>, the operator
  \<open>in\<close> and the format specification \<open><N\<close>.
\<close>

definition code_point :: "char \<Rightarrow> nat" where
  "code_point c = of_char c"

text \<open>
  \<open>str.lower\<close>: below 256 the cased letters with a lower-case partner are A..Z
  (65..90) and the Latin-1 capitals 192..214 and 216..222; the partner is 32 further.
\<close>

definition lower_char :: "char \<Rightarrow> char" where
  "lower_char c =
     (let n = code_point c in
      if (65 \<le> n \<and> n \<le> 90) \<or> (192 \<le> n \<and> n \<le> 214) \<or> (216 \<le> n \<and> n \<le> 222)
      then char_of (n + 32) else c)"

definition lower :: "string \<Rightarrow> string" where
  "lower s = map lower_char s"

text \<open>
  \<open>str.isdigit\<close> on one character: true for the characters whose Unicode numeric type
  is Digit or Decimal. Below 256 these are 0..9 (48..57) and the superscripts two, three
  and one (178, 179, 185).
\<close>

definition isdigit :: "char \<Rightarrow> bool" where
  "isdigit c =
     (let n = code_point c in (48 \<le> n \<and> n \<le> 57) \<or> n = 178 \<or> n = 179 \<or> n = 185)"

text \<open>
  \<open>s.replace(old, new)\<close>: every non-overlapping occurrence of \<open>old\<close>, leftmost first;
  an empty \<open>old\<close> matches before every character and at the end.
\<close>

function str_replace :: "string \<Rightarrow> string \<Rightarrow> string \<Rightarrow> string" where
  "str_replace [] old new = (if old = [] then new else [])"
| "str_replace (c # cs) old new =
     (if old = [] then new @ c # str_replace cs old new
      else if prefix old (c # cs) then new @ str_replace (drop (length old) (c # cs)) old new
      else c # str_replace cs old new)"
  by pat_completeness auto
termination
  by (relation "measure (\<lambda>(s, old, new). length s)") auto

text \<open>\<open>sub in s\<close> for two strings: \<open>sub\<close> starts at some position of \<open>s\<close>.\<close>

fun str_in :: "string \<Rightarrow> string \<Rightarrow> bool" where
  "str_in sub [] = (sub = [])"
| "str_in sub (c # cs) = (prefix sub (c # cs) \<or> str_in sub cs)"


abbreviation squote :: char where "squote \<equiv> CHR 0x27"
abbreviation dquote :: char where "dquote \<equiv> CHR 0x22"
abbreviation backslash :: char where "backslash \<equiv> CHR 0x5C"
abbreviation newline :: char where "newline \<equiv> CHR 0x0A"

text \<open>\<open>'{name}'\<close> inside an f-string.\<close>

definition quoted :: "string \<Rightarrow> string" where
  "quoted s = squote # s @ [squote]"

section \<open>Python dictionaries\<close>

text \<open>
  A \<open>dict\<close> with string keys keeps its items in insertion order: an association list
  whose keys are distinct. Assigning to a key that is present replaces the value where it
  stands; assigning to a new key appends the item.
\<close>

type_synonym 'v dict = "(string \<times> 'v) list"

definition keys :: "'v dict \<Rightarrow> string list" where
  "keys d = map fst d"

fun dict_get :: "'v dict \<Rightarrow> string \<Rightarrow> 'v option" where
  "dict_get [] k = None"
| "dict_get ((k', v) # d) k = (if k' = k then Some v else dict_get d k)"

text \<open>\<open>d.get(k, default)\<close>\<close>

definition get_default :: "'v dict \<Rightarrow> string \<Rightarrow> 'v \<Rightarrow> 'v" where
  "get_default d k dflt = (case dict_get d k of None \<Rightarrow> dflt | Some v \<Rightarrow> v)"

text \<open>\<open>d[k] = v\<close>\<close>

fun dict_set :: "'v dict \<Rightarrow> string \<Rightarrow> 'v \<Rightarrow> 'v dict" where
  "dict_set [] k v = [(k, v)]"
| "dict_set ((k', v') # d) k v = (if k' = k then (k', v) # d else (k', v') # dict_set d k v)"


text \<open>
  \<open>d[k][f] = v\<close>: the inner dictionary stored under \<open>k\<close> is changed in place. No two
  keys of a store share their inner dictionary (each is built by its own dictionary
  display or by the JSON reader), so the change shows under \<open>k\<close> only.
\<close>

fun dict_set_inner :: "'v dict dict \<Rightarrow> string \<Rightarrow> string \<Rightarrow> 'v \<Rightarrow> 'v dict dict" where
  "dict_set_inner [] k f v = []"
| "dict_set_inner ((k', c) # d) k f v =
     (if k' = k then (k', dict_set c f v) # d else (k', c) # dict_set_inner d k f v)"

section \<open>The clock\<close>

text \<open>
  \<open>datetime.now()\<close> reads the local clock; the reading is an argument of the model.
  \<open>strftime\<close> is modelled for the one format the program uses,
  \<open>"%Y-%m-%d %H:%M:%S"\<close>: the year in decimal as the C library prints it (no padding),
  the other five fields as two digits.
\<close>

record datetime =
  year :: nat
  month :: nat
  day :: nat
  hour :: nat
  minute :: nat
  second :: nat

definition digit_char :: "nat \<Rightarrow> char" where
  "digit_char n = char_of (48 + n)"

fun decimal :: "nat \<Rightarrow> string" where
  "decimal n = (if n < 10 then [digit_char n] else decimal (n div 10) @ [digit_char (n mod 10)])"

declare decimal.simps [simp del]

definition pad2 :: "nat \<Rightarrow> string" where
  "pad2 n = (if n < 10 then CHR ''0'' # decimal n else decimal n)"

definition strftime :: "datetime \<Rightarrow> string" where
  "strftime t =
     decimal (year t) @ ''-'' @ pad2 (month t) @ ''-'' @ pad2 (day t) @ '' '' @
     pad2 (hour t) @ '':'' @ pad2 (minute t) @ '':'' @ pad2 (second t)"

section \<open>Writing JSON\<close>

text \<open>
  \<open>json.dump(obj, f, indent=4)\<close> for the objects the program writes: a dictionary of
  dictionaries of strings. Strings are written with \<open>ensure_ascii\<close>: the quote, the
  backslash and the characters outside the printable ASCII range are escaped.
\<close>

definition hex_digit :: "nat \<Rightarrow> char" where
  "hex_digit n = ''0123456789abcdef'' ! n"

definition escape_char :: "char \<Rightarrow> string" where
  "escape_char c =
     (if c = backslash then [backslash, backslash]
      else if c = dquote then [backslash, dquote]
      else if c = CHR 0x08 then [backslash, CHR ''b'']
      else if c = CHR 0x0C then [backslash, CHR ''f'']
      else if c = CHR 0x0A then [backslash, CHR ''n'']
      else if c = CHR 0x0D then [backslash, CHR ''r'']
      else if c = CHR 0x09 then [backslash, CHR ''t'']
      else if 32 \<le> code_point c \<and> code_point c \<le> 126 then [c]
      else [backslash, CHR ''u'', CHR ''0'', CHR ''0'',
            hex_digit (code_point c div 16), hex_digit (code_point c mod 16)])"

definition encode_string :: "string \<Rightarrow> string" where
  "encode_string s = dquote # concat (map escape_char s) @ [dquote]"

definition newline_indent :: "nat \<Rightarrow> string" where
  "newline_indent level = newline # replicate (4 * level) (CHR '' '')"

fun join :: "string \<Rightarrow> string list \<Rightarrow> string" where
  "join sep [] = []"
| "join sep [x] = x"
| "join sep (x # y # ys) = x @ sep @ join sep (y # ys)"

text \<open>
  A dictionary at nesting depth \<open>level\<close>, its values written by \<open>dump_value\<close>: \<open>{}\<close> when
  empty, else one item per line, indented one step further than the closing brace.
\<close>

definition dump_dict :: "nat \<Rightarrow> ('v \<Rightarrow> string) \<Rightarrow> 'v dict \<Rightarrow> string" where
  "dump_dict level dump_value d =
     (if d = [] then ''{}''
      else ''{'' @ newline_indent (level + 1) @
           join ('','' @ newline_indent (level + 1))
             (map (\<lambda>(k, v). encode_string k @ '': '' @ dump_value v) d) @
           newline_indent level @ ''}'')"

section \<open>Reading JSON\<close>

text \<open>
  \<open>json.load\<close> on the text of the file: the JSON grammar as CPython's decoder accepts it
  (the literals \<open>NaN\<close>, \<open>Infinity\<close> and \<open>-Infinity\<close> included, control characters
  inside strings refused). The text is cut into tokens, and the tokens are read by a
  parser that keeps the containers it is building on a stack. An object becomes a
  dictionary, built by assignment, so a repeated key keeps its first place and its last
  value. A number is kept as its literal: no claim rests on its value.

  Every malformed text gives \<open>JSONDecodeError\<close>. An escape above \<open>\u00ff\<close> names a
  character outside the modelled range; the reader reports \<open>CodePointOutOfRange\<close> for it,
  which is no exception of Python's: a file with such an escape is outside the model.
  The interpreter's recursion limit is not modelled.
\<close>

datatype json =
    JNull
  | JBool bool
  | JNumber string
  | JString string
  | JArray "json list"
  | JObject "(string \<times> json) list"

datatype exn = JSONDecodeError | CodePointOutOfRange

datatype token = TLBrace | TRBrace | TLBracket | TRBracket | TColon | TComma | TScalar json

definition json_digit :: "char \<Rightarrow> bool" where
  "json_digit c = (48 \<le> code_point c \<and> code_point c \<le> 57)"

definition hex_value :: "char \<Rightarrow> nat option" where
  "hex_value c =
     (let n = code_point c in
      if 48 \<le> n \<and> n \<le> 57 then Some (n - 48)
      else if 97 \<le> n \<and> n \<le> 102 then Some (n - 87)
      else if 65 \<le> n \<and> n \<le> 70 then Some (n - 55)
      else None)"

definition unescape :: "char \<Rightarrow> char option" where
  "unescape e =
     (if e = dquote then Some dquote
      else if e = backslash then Some backslash
      else if e = CHR ''/'' then Some (CHR ''/'')
      else if e = CHR ''b'' then Some (CHR 0x08)
      else if e = CHR ''f'' then Some (CHR 0x0C)
      else if e = CHR ''n'' then Some (CHR 0x0A)
      else if e = CHR ''r'' then Some (CHR 0x0D)
      else if e = CHR ''t'' then Some (CHR 0x09)
      else None)"

definition cons_char :: "char \<Rightarrow> exn + (string \<times> string) \<Rightarrow> exn + (string \<times> string)" where
  "cons_char c r = (case r of Inl e \<Rightarrow> Inl e | Inr (s, rest) \<Rightarrow> Inr (c # s, rest))"

definition hex4 :: "string \<Rightarrow> nat option" where
  "hex4 s =
     (case map hex_value s of
        [Some a, Some b, Some c, Some d] \<Rightarrow> Some (((a * 16 + b) * 16 + c) * 16 + d)
      | _ \<Rightarrow> None)"

fun lex_string :: "string \<Rightarrow> exn + (string \<times> string)" where
  "lex_string [] = Inl JSONDecodeError"
| "lex_string (c # cs) =
     (if c = dquote then Inr ([], cs)
      else if c = backslash then
        (case cs of
           [] \<Rightarrow> Inl JSONDecodeError
         | e # cs1 \<Rightarrow>
             if e = CHR ''u'' then
               (case hex4 (take 4 cs1) of
                  None \<Rightarrow> Inl JSONDecodeError
                | Some n \<Rightarrow>
                    if n < 256 then cons_char (char_of n) (lex_string (drop 4 cs1))
                    else Inl CodePointOutOfRange)
             else
               (case unescape e of
                  None \<Rightarrow> Inl JSONDecodeError
                | Some ch \<Rightarrow> cons_char ch (lex_string cs1)))
      else if code_point c < 32 then Inl JSONDecodeError
      else cons_char c (lex_string cs))"

text \<open>
  A number literal: \<open>-?(0|[1-9][0-9]*)(\.[0-9]+)?([eE][-+]?[0-9]+)?\<close>, each optional
  part taken only when it is complete.
\<close>

definition lex_sign :: "string \<Rightarrow> string \<Rightarrow> string \<times> string" where
  "lex_sign signs s =
     (case s of [] \<Rightarrow> ([], s) | c # r \<Rightarrow> if c \<in> set signs then ([c], r) else ([], s))"

definition lex_int :: "string \<Rightarrow> string" where
  "lex_int s =
     (case s of
        [] \<Rightarrow> []
      | c # r \<Rightarrow> if c = CHR ''0'' then [c] else takeWhile json_digit s)"

definition lex_frac :: "string \<Rightarrow> string" where
  "lex_frac s =
     (case s of
        [] \<Rightarrow> []
      | c # r \<Rightarrow>
          if c = CHR ''.'' \<and> takeWhile json_digit r \<noteq> [] then c # takeWhile json_digit r
          else [])"

definition lex_exp :: "string \<Rightarrow> string" where
  "lex_exp s =
     (case s of
        [] \<Rightarrow> []
      | c # r \<Rightarrow>
          if c = CHR ''e'' \<or> c = CHR ''E'' then
            (let (sign, r1) = lex_sign ''+-'' r; digits = takeWhile json_digit r1
             in if digits = [] then [] else c # sign @ digits)
          else [])"

definition lex_number :: "string \<Rightarrow> (string \<times> string) option" where
  "lex_number s =
     (let (sign, s1) = lex_sign ''-'' s;
          int_part = lex_int s1
      in if int_part = [] then None
         else
           let s2 = drop (length int_part) s1;
               frac = lex_frac s2;
               s3 = drop (length frac) s2;
               ex = lex_exp s3
           in Some (sign @ int_part @ frac @ ex, drop (length ex) s3))"

definition cons_token :: "token \<Rightarrow> exn + token list \<Rightarrow> exn + token list" where
  "cons_token t r = (case r of Inl e \<Rightarrow> Inl e | Inr ts \<Rightarrow> Inr (t # ts))"

lemma lex_string_length: "lex_string cs = Inr (s, rest) \<Longrightarrow> length rest < length cs"
proof (induction cs arbitrary: s rest rule: lex_string.induct)
  case 1
  then show ?case by simp
next
  case (2 c cs)
  show ?case
    using "2.prems" "2.IH"
    apply (simp add: cons_char_def split: if_splits list.splits option.splits sum.splits prod.splits)
    apply fastforce+
    done
qed

lemma lex_number_length: "lex_number cs = Some (lit, rest) \<Longrightarrow> length rest < length cs"
  apply (auto simp: lex_number_def Let_def lex_sign_def split: prod.splits if_splits list.splits)
  apply (auto simp: lex_int_def split: list.splits if_splits)
  done

function lex :: "string \<Rightarrow> exn + token list" where
  "lex [] = Inr []"
| "lex (c # cs) =
     (if c = CHR '' '' \<or> c = CHR 0x09 \<or> c = CHR 0x0A \<or> c = CHR 0x0D then lex cs
      else if c = CHR ''{'' then cons_token TLBrace (lex cs)
      else if c = CHR ''}'' then cons_token TRBrace (lex cs)
      else if c = CHR ''['' then cons_token TLBracket (lex cs)
      else if c = CHR '']'' then cons_token TRBracket (lex cs)
      else if c = CHR '':'' then cons_token TColon (lex cs)
      else if c = CHR '','' then cons_token TComma (lex cs)
      else if c = dquote then
        (case lex_string cs of
           Inl e \<Rightarrow> Inl e
         | Inr (s, rest) \<Rightarrow> cons_token (TScalar (JString s)) (lex rest))
      else if prefix ''null'' (c # cs) then cons_token (TScalar JNull) (lex (drop 3 cs))
      else if prefix ''true'' (c # cs) then cons_token (TScalar (JBool True)) (lex (drop 3 cs))
      else if prefix ''false'' (c # cs) then cons_token (TScalar (JBool False)) (lex (drop 4 cs))
      else
        (case lex_number (c # cs) of
           Some (literal, rest) \<Rightarrow> cons_token (TScalar (JNumber literal)) (lex rest)
         | None \<Rightarrow>
             if prefix ''NaN'' (c # cs) then cons_token (TScalar (JNumber ''NaN'')) (lex (drop 2 cs))
             else if prefix ''Infinity'' (c # cs)
               then cons_token (TScalar (JNumber ''Infinity'')) (lex (drop 7 cs))
             else if prefix ''-Infinity'' (c # cs)
               then cons_token (TScalar (JNumber ''-Infinity'')) (lex (drop 8 cs))
             else Inl JSONDecodeError))"
  by pat_completeness auto
termination
  by (relation "measure length") (auto dest: lex_string_length lex_number_length)

datatype frame =
    ArrayFrame "json list"
  | ObjectFrame "(string \<times> json) list"
  | KeyFrame "(string \<times> json) list" string

datatype expecting = Value | ValueOrEnd | KeyOrEnd | Key | Colon | CommaOrEnd | Finished json

type_synonym parser = "frame list \<times> expecting"

definition deliver :: "frame list \<Rightarrow> json \<Rightarrow> exn + parser" where
  "deliver stack v =
     (case stack of
        [] \<Rightarrow> Inr ([], Finished v)
      | ArrayFrame items # st \<Rightarrow> Inr (ArrayFrame (items @ [v]) # st, CommaOrEnd)
      | KeyFrame members k # st \<Rightarrow> Inr (ObjectFrame (dict_set members k v) # st, CommaOrEnd)
      | ObjectFrame members # st \<Rightarrow> Inl JSONDecodeError)"

definition start_value :: "frame list \<Rightarrow> token \<Rightarrow> exn + parser" where
  "start_value stack t =
     (case t of
        TScalar v \<Rightarrow> deliver stack v
      | TLBrace \<Rightarrow> Inr (ObjectFrame [] # stack, KeyOrEnd)
      | TLBracket \<Rightarrow> Inr (ArrayFrame [] # stack, ValueOrEnd)
      | _ \<Rightarrow> Inl JSONDecodeError)"

definition close_frame :: "frame list \<Rightarrow> token \<Rightarrow> exn + parser" where
  "close_frame stack t =
     (case (stack, t) of
        (ArrayFrame items # st, TRBracket) \<Rightarrow> deliver st (JArray items)
      | (ObjectFrame members # st, TRBrace) \<Rightarrow> deliver st (JObject members)
      | _ \<Rightarrow> Inl JSONDecodeError)"

definition start_key :: "frame list \<Rightarrow> token \<Rightarrow> exn + parser" where
  "start_key stack t =
     (case (stack, t) of
        (ObjectFrame members # st, TScalar (JString k)) \<Rightarrow> Inr (KeyFrame members k # st, Colon)
      | _ \<Rightarrow> Inl JSONDecodeError)"

definition step :: "parser \<Rightarrow> token \<Rightarrow> exn + parser" where
  "step p t =
     (case p of (stack, e) \<Rightarrow>
        (case e of
           Value \<Rightarrow> start_value stack t
         | ValueOrEnd \<Rightarrow> if t = TRBracket then close_frame stack t else start_value stack t
         | KeyOrEnd \<Rightarrow> if t = TRBrace then close_frame stack t else start_key stack t
         | Key \<Rightarrow> start_key stack t
         | Colon \<Rightarrow> if t = TColon then Inr (stack, Value) else Inl JSONDecodeError
         | CommaOrEnd \<Rightarrow>
             if t = TComma then
               (case stack of
                  ArrayFrame items # st \<Rightarrow> Inr (stack, Value)
                | ObjectFrame members # st \<Rightarrow> Inr (stack, Key)
                | _ \<Rightarrow> Inl JSONDecodeError)
             else close_frame stack t
         | Finished v \<Rightarrow> Inl JSONDecodeError))"

fun run :: "parser \<Rightarrow> token list \<Rightarrow> exn + parser" where
  "run p [] = Inr p"
| "run p (t # ts) = (case step p t of Inl e \<Rightarrow> Inl e | Inr p' \<Rightarrow> run p' ts)"

definition parse :: "token list \<Rightarrow> exn + json" where
  "parse ts =
     (case run ([], Value) ts of
        Inr (stack, Finished v) \<Rightarrow> Inr v
      | _ \<Rightarrow> Inl JSONDecodeError)"

definition json_loads :: "string \<Rightarrow> exn + json" where
  "json_loads text = (case lex text of Inl e \<Rightarrow> Inl e | Inr ts \<Rightarrow> parse ts)"

section \<open>The contact book\<close>

text \<open>
  The class \<open>ContactBook\<close> of \<open>contact_book.py\<close>. A contact is a dictionary from field
  names to strings; the store \<open>self.contacts\<close> is a dictionary from names to contacts. The
  state of a \<open>ContactBook\<close> is its store, the backing file \<open>self.filename\<close> (\<open>None\<close>
  while the file does not exist, else its text) and the lines printed so far, one entry
  per call of \<open>print\<close>. Each method takes the state and returns its result with the new
  state.
\<close>

type_synonym contact = "string dict"

type_synonym store = "contact dict"

record book =
  contacts :: store
  backing_file :: "string option"
  printed :: "string list"

definition py_print :: "book \<Rightarrow> string \<Rightarrow> book" where
  "py_print b line = b\<lparr>printed := printed b @ [line]\<rparr>"

text \<open>\<open>save_contacts\<close> (lines 24 to 28): the file is overwritten with the whole store.\<close>

definition dump_store :: "store \<Rightarrow> string" where
  "dump_store cs = dump_dict 0 (dump_dict 1 encode_string) cs"

definition save_contacts :: "book \<Rightarrow> book" where
  "save_contacts b =
     py_print (b\<lparr>backing_file := Some (dump_store (contacts b))\<rparr>) ''Contacts saved successfully!''"

text \<open>
  \<open>validate_phone\<close> (lines 153 to 160): \<open>sum(1 for c in clean_phone if c.isdigit())\<close>
  adds a one for every character that passes the test.
\<close>

definition validate_phone :: "string \<Rightarrow> bool" where
  "validate_phone phone_number =
     (let clean_phone =
            str_replace (str_replace (str_replace (str_replace phone_number
              ''-'' '''') '' '' '''') ''('' '''') '')'' '''';
          digits = sum_list (map (\<lambda>c. 1 :: int) (filter isdigit clean_phone))
      in digits \<ge> 10)"

text \<open>
  \<open>add_contact\<close> (lines 30 to 51). The clock is read on the successful path only; its
  reading \<open>now\<close> is an argument.
\<close>

definition add_contact ::
  "book \<Rightarrow> datetime \<Rightarrow> string \<Rightarrow> string \<Rightarrow> string \<Rightarrow> string \<Rightarrow> bool \<times> book" where
  "add_contact b now name phone_number email address =
     (if List.member (map lower (keys (contacts b))) (lower name)
      then (False, py_print b (''Contact '' @ quoted name @ '' already exists!''))
      else if \<not> validate_phone phone_number
      then (False, py_print b ''Invalid phone number format!'')
      else
        let b1 = b\<lparr>contacts := dict_set (contacts b) name
                     [(''phone'', phone_number), (''email'', email), (''address'', address),
                      (''date_added'', strftime now)]\<rparr>;
            b2 = save_contacts b1
        in (True, py_print b2 (''Contact '' @ quoted name @ '' added successfully!'')))"

text \<open>
  The loop shared by \<open>edit_contact\<close>, \<open>delete_contact\<close> and \<open>display_contact\<close>: the first
  key, in store order, whose lower-case form is that of \<open>name\<close>.
\<close>

definition find_key :: "store \<Rightarrow> string \<Rightarrow> string option" where
  "find_key cs name = List.find (\<lambda>key. lower key = lower name) (keys cs)"

text \<open>
  An optional argument under \<open>if arg:\<close>: \<open>None\<close> and the empty string are both false.
\<close>

definition supplied :: "string option \<Rightarrow> string option" where
  "supplied arg = (case arg of None \<Rightarrow> None | Some s \<Rightarrow> if s = [] then None else Some s)"

text \<open>\<open>self.contacts[contact_key][field] = v\<close>\<close>

definition set_field :: "book \<Rightarrow> string \<Rightarrow> string \<Rightarrow> string \<Rightarrow> book" where
  "set_field b contact_key field v =
     b\<lparr>contacts := dict_set_inner (contacts b) contact_key field v\<rparr>"

text \<open>
  \<open>edit_contact\<close> from \<open>if email:\<close> to its end (lines 72 to 80): what runs once the
  phone number has been dealt with.
\<close>

definition edit_email_address ::
  "book \<Rightarrow> string \<Rightarrow> string option \<Rightarrow> string option \<Rightarrow> bool \<times> book" where
  "edit_email_address b contact_key email address =
     (let b1 = (case supplied email of
                  None \<Rightarrow> b
                | Some e \<Rightarrow> set_field b contact_key ''email'' e);
          b2 = (case supplied address of
                  None \<Rightarrow> b1
                | Some a \<Rightarrow> set_field b1 contact_key ''address'' a);
          b3 = save_contacts b2
      in (True, py_print b3 (''Contact '' @ quoted contact_key @ '' updated successfully!'')))"

text \<open>
  \<open>edit_contact\<close> (lines 53 to 80). An invalid phone number returns at once, before any
  field is assigned.
\<close>

definition edit_contact ::
  "book \<Rightarrow> string \<Rightarrow> string option \<Rightarrow> string option \<Rightarrow> string option \<Rightarrow> bool \<times> book" where
  "edit_contact b name phone_number email address =
     (case find_key (contacts b) name of
        None \<Rightarrow> (False, py_print b (''Contact '' @ quoted name @ '' not found!''))
      | Some contact_key \<Rightarrow>
          (case supplied phone_number of
             None \<Rightarrow> edit_email_address b contact_key email address
           | Some p \<Rightarrow>
               if \<not> validate_phone p
               then (False, py_print b ''Invalid phone number format!'')
               else edit_email_address (set_field b contact_key ''phone'' p)
                      contact_key email address))"

text \<open>
  \<open>search_contact\<close> (lines 82 to 95): the loop over \<open>self.contacts.items()\<close>, appending
  each match to \<open>results\<close>. It changes no state and prints nothing.
\<close>

fun search_loop ::
  "string \<Rightarrow> string \<Rightarrow> store \<Rightarrow> (string \<times> contact) list \<Rightarrow> (string \<times> contact) list" where
  "search_loop query query_lower [] results = results"
| "search_loop query query_lower ((name, details) # items) results =
     search_loop query query_lower items
       (if str_in query_lower (lower name) \<or>
           str_in query (get_default details ''phone'' []) \<or>
           str_in query_lower (lower (get_default details ''email'' []))
        then results @ [(name, details)] else results)"

definition search_contact :: "book \<Rightarrow> string \<Rightarrow> (string \<times> contact) list" where
  "search_contact b query = search_loop query (lower query) (contacts b) []"






subsection \<open>Loading\<close>








section \<open>The notions of the specification\<close>

text \<open>
  The phone-validity rule speaks of separators and of decimal digits; \<open>is_ascii\<close> marks
  the characters on which \<open>str.isdigit\<close> and the decimal digits coincide.
\<close>

definition is_separator :: "char \<Rightarrow> bool" where
  "is_separator c = (c = CHR ''-'' \<or> c = CHR '' '' \<or> c = CHR ''('' \<or> c = CHR '')'')"

definition strip_separators :: "string \<Rightarrow> string" where
  "strip_separators p = filter (\<lambda>c. \<not> is_separator c) p"

definition is_decimal_digit :: "char \<Rightarrow> bool" where
  "is_decimal_digit c = (48 \<le> code_point c \<and> code_point c \<le> 57)"

definition is_ascii :: "char \<Rightarrow> bool" where
  "is_ascii c = (code_point c < 128)"

text \<open>
  Case-insensitive comparison is comparison of the lower-case forms. \<open>q\<close> is a
  case-insensitive substring of \<open>s\<close> when some substring of \<open>s\<close> equals \<open>q\<close> up to case.
\<close>

definition has_ci_match :: "store \<Rightarrow> string \<Rightarrow> bool" where
  "has_ci_match cs name = (\<exists>k \<in> set (keys cs). lower k = lower name)"


definition ci_substring :: "string \<Rightarrow> string \<Rightarrow> bool" where
  "ci_substring q s = (\<exists>t. sublist t s \<and> lower t = lower q)"

text \<open>The matching rule of \<open>search\<close>, on one item of the store.\<close>

definition matches :: "string \<Rightarrow> string \<times> contact \<Rightarrow> bool" where
  "matches query item =
     (ci_substring query (fst item) \<or>
      sublist query (get_default (snd item) ''phone'' []) \<or>
      ci_substring query (get_default (snd item) ''email'' []))"



text \<open>The field \<open>f\<close> of the contact stored under the key \<open>k\<close>.\<close>

definition field_of :: "store \<Rightarrow> string \<Rightarrow> string \<Rightarrow> string option" where
  "field_of cs k f = (case dict_get cs k of None \<Rightarrow> None | Some c \<Rightarrow> dict_get c f)"



section \<open>Example data\<close>

text \<open>A store of two contacts and a reading of the clock, for the concrete instances.\<close>

definition example_book :: book where
  "example_book =
     \<lparr>contacts =
        [(''Alice'', [(''phone'', ''5551234567''), (''email'', ''''), (''address'', ''''),
                      (''date_added'', ''2024-01-15 10:30:00'')]),
         (''Carol'', [(''phone'', ''(555) 123-4567''), (''email'', ''c@example.com''),
                      (''address'', ''''), (''date_added'', ''2024-02-01 08:00:00'')])],
      backing_file = None,
      printed = []\<rparr>"

definition example_clock :: datetime where
  "example_clock = \<lparr>year = 2024, month = 3, day = 9, hour = 14, minute = 5, second = 0\<rparr>"

section \<open>Auxiliary definitions\<close>

text \<open>Notions that only the proofs below need.\<close>

text \<open>
  What \<open>edit_contact\<close> does to the store for one optional argument: nothing when the
  argument is not supplied.
\<close>

definition apply_field :: "string \<Rightarrow> string \<Rightarrow> string option \<Rightarrow> store \<Rightarrow> store" where
  "apply_field contact_key field arg cs =
     (case supplied arg of None \<Rightarrow> cs | Some v \<Rightarrow> dict_set_inner cs contact_key field v)"



definition app_tokens :: "token list \<Rightarrow> exn + token list \<Rightarrow> exn + token list" where
  "app_tokens ts r = (case r of Inl e \<Rightarrow> Inl e | Inr us \<Rightarrow> Inr (ts @ us))"



section \<open>The library functions on examples\<close>

text \<open>Values that CPython 3.11 gives for the same calls.\<close>

lemma lower_examples:
  "lower ''Hello World 42'' = ''hello world 42''"
  "lower [CHR 0xC9, CHR 0xD7, CHR 0xDF] = [CHR 0xE9, CHR 0xD7, CHR 0xDF]"
  by code_simp+

lemma isdigit_examples:
  "isdigit (CHR ''7'')" "\<not> isdigit (CHR ''x'')" "isdigit (CHR 0xB2)" "\<not> isdigit (CHR 0xBC)"
  by code_simp+

lemma str_replace_examples:
  "str_replace ''aaa'' ''aa'' ''b'' = ''ba''"
  "str_replace ''abc'' '''' ''-'' = ''-a-b-c-''"
  "str_replace ''(555) 123-4567'' ''-'' '''' = ''(555) 1234567''"
  by code_simp+

lemma str_in_examples:
  "str_in '''' ''''" "str_in ''23'' ''1234''" "\<not> str_in ''24'' ''1234''"
  by code_simp+

lemma strftime_example:
  "strftime \<lparr>year = 2024, month = 3, day = 9, hour = 14, minute = 5, second = 0\<rparr> =
     ''2024-03-09 14:05:00''"
  by code_simp

lemma encode_string_example:
  \<open>encode_string ([CHR ''a'', dquote, backslash, newline, CHR 0x01, CHR 0x7F, CHR 0xE9, CHR ''/'']) =
     [dquote, CHR ''a'', backslash, dquote, backslash, backslash, backslash, CHR ''n'']
     @ [backslash] @ ''u0001'' @ [backslash] @ ''u007f'' @ [backslash] @ ''u00e9'' @ ''/'' @ [dquote]\<close>
  by code_simp

lemma dump_store_example:
  \<open>dump_store [(''a'', [(''b'', ''c''), (''d'', '''')]), (''e'', [])] =
     ''{'' @ [newline] @
     ''    "a": {'' @ [newline] @
     ''        "b": "c",'' @ [newline] @
     ''        "d": ""'' @ [newline] @
     ''    },'' @ [newline] @
     ''    "e": {}'' @ [newline] @
     ''}''\<close>
  \<open>dump_store [] = ''{}''\<close>
  by code_simp+

lemma json_loads_examples:
  \<open>json_loads ''{"a":1,"a":2,"b":3}'' = Inr (JObject [(''a'', JNumber ''2''), (''b'', JNumber ''3'')])\<close>
  \<open>json_loads ''[1.5e-3, -2, true, false, null, NaN]'' =
     Inr (JArray [JNumber ''1.5e-3'', JNumber ''-2'', JBool True, JBool False, JNull, JNumber ''NaN''])\<close>
  \<open>json_loads '' {} '' = Inr (JObject [])\<close>
  \<open>json_loads ([dquote, backslash] @ ''u00e9'' @ [backslash] @ ''/'' @ [dquote]) =
     Inr (JString [CHR 0xE9, CHR ''/''])\<close>
  by code_simp+

lemma json_loads_error_examples:
  \<open>json_loads '''' = Inl JSONDecodeError\<close>
  \<open>json_loads ''01'' = Inl JSONDecodeError\<close>
  \<open>json_loads ''[1,]'' = Inl JSONDecodeError\<close>
  \<open>json_loads ''{"a":1,}'' = Inl JSONDecodeError\<close>
  \<open>json_loads ''{"a" 1}'' = Inl JSONDecodeError\<close>
  \<open>json_loads ''[] x'' = Inl JSONDecodeError\<close>
  \<open>json_loads ''nul'' = Inl JSONDecodeError\<close>
  \<open>json_loads ''-NaN'' = Inl JSONDecodeError\<close>
  \<open>json_loads ([dquote, CHR 0x09, dquote]) = Inl JSONDecodeError\<close>
  \<open>json_loads ([dquote, backslash] @ ''x'' @ [dquote]) = Inl JSONDecodeError\<close>
  \<open>json_loads ''"abc'' = Inl JSONDecodeError\<close>
  by code_simp+

section \<open>Properties of the library functions\<close>

subsection \<open>Strings\<close>

lemma str_replace_char_empty: "str_replace s [c] [] = filter (\<lambda>x. x \<noteq> c) s"
  by (induction s) auto

lemma clean_phone_strip:
  "str_replace (str_replace (str_replace (str_replace p ''-'' '''') '' '' '''') ''('' '''') '')'' ''''
   = strip_separators p"
  by (simp add: str_replace_char_empty strip_separators_def is_separator_def conj_commute
      conj_left_commute)

lemma sum_ones: "sum_list (map (\<lambda>c. 1 :: int) xs) = int (length xs)"
  by (induction xs) auto

lemma validate_phone_count:
  "validate_phone p \<longleftrightarrow> 10 \<le> length (filter isdigit (strip_separators p))"
  by (simp add: validate_phone_def clean_phone_strip sum_ones Let_def)

lemma ascii_digit: "is_ascii c \<Longrightarrow> isdigit c = is_decimal_digit c"
  by (auto simp: is_ascii_def isdigit_def is_decimal_digit_def Let_def)

lemma filter_ascii_digit: "list_all is_ascii p \<Longrightarrow> filter isdigit p = filter is_decimal_digit p"
  by (induction p) (auto simp: ascii_digit)

lemma list_all_strip: "list_all is_ascii p \<Longrightarrow> list_all is_ascii (strip_separators p)"
  by (induction p) (auto simp: strip_separators_def)

lemma str_in_sublist: "str_in sub s \<longleftrightarrow> sublist sub s"
  by (induction s) (auto simp: sublist_Cons_right)

lemma lower_sublist: "sublist (lower q) (lower s) \<longleftrightarrow> ci_substring q s"
proof
  assume "sublist (lower q) (lower s)"
  then obtain ps ss where "map lower_char s = ps @ map lower_char q @ ss"
    by (auto simp: sublist_def lower_def)
  then have "\<exists>a r. s = a @ r \<and> map lower_char r = map lower_char q @ ss"
    by (metis map_eq_append_conv)
  then obtain a r where a: "s = a @ r" "map lower_char r = map lower_char q @ ss"
    by blast
  from a(2) have "\<exists>t b. r = t @ b \<and> map lower_char t = map lower_char q"
    by (metis map_eq_append_conv)
  then obtain t b where "r = t @ b" "map lower_char t = map lower_char q"
    by blast
  with a(1) have "sublist t s" "lower t = lower q"
    by (auto simp: lower_def sublist_def)
  then show "ci_substring q s"
    by (auto simp: ci_substring_def)
next
  assume "ci_substring q s"
  then show "sublist (lower q) (lower s)"
    by (auto simp: ci_substring_def lower_def sublist_def) (metis map_append)
qed

subsection \<open>The clock\<close>








subsection \<open>Dictionaries\<close>

lemma keys_Nil: "keys [] = []"
  by (simp add: keys_def)

lemma keys_Cons: "keys ((k, v) # d) = k # keys d"
  by (simp add: keys_def)

lemma keys_dict_set: "keys (dict_set d k v) = (if k \<in> set (keys d) then keys d else keys d @ [k])"
  by (induction d) (auto simp: keys_Nil keys_Cons)



lemma dict_get_set: "dict_get (dict_set d k v) k' = (if k' = k then Some v else dict_get d k')"
  by (induction d) auto

lemma keys_set_inner: "keys (dict_set_inner d k f v) = keys d"
  by (induction d) (auto simp: keys_Nil keys_Cons)

lemma dict_get_set_inner:
  "dict_get (dict_set_inner d k f v) k' =
     (if k' = k then map_option (\<lambda>c. dict_set c f v) (dict_get d k) else dict_get d k')"
  by (induction d) auto



subsection \<open>Reading back what was written\<close>

lemma app_tokens_simps:
  "app_tokens [] r = r"
  "cons_token t r = app_tokens [t] r"
  "app_tokens ts (app_tokens us r) = app_tokens (ts @ us) r"
  by (auto simp: app_tokens_def cons_token_def split: sum.splits)

lemma hex_value_hex_digit: "k < 16 \<Longrightarrow> hex_value (hex_digit k) = Some k"
proof -
  assume "k < 16"
  then have "k \<in> {0,1,2,3,4,5,6,7,8,9,10,11,12,13,14,15}"
    by (simp only: insert_iff empty_iff) arith
  then show ?thesis
    by (auto simp: hex_value_def hex_digit_def code_point_def)
qed

lemma code_point_lt: "code_point c < 256"
  by (simp add: code_point_def)

lemma char_of_code_point: "char_of (code_point c) = c"
  by (simp add: code_point_def)

lemma hex4_escape:
  "hex4 [CHR ''0'', CHR ''0'', hex_digit (code_point c div 16), hex_digit (code_point c mod 16)]
     = Some (code_point c)"
proof -
  have a: "code_point c div 16 < 16" using code_point_lt[of c] by simp
  have z: "hex_value (CHR ''0'') = Some 0" by (simp add: hex_value_def code_point_def)
  show ?thesis
    by (simp add: hex4_def hex_value_hex_digit a z)
qed

lemma lex_string_escape: "lex_string (escape_char c @ r) = cons_char c (lex_string r)"
proof -
  consider (special) "c \<in> {backslash, dquote, CHR 0x08, CHR 0x0C, CHR 0x0A, CHR 0x0D, CHR 0x09}"
    | (plain) "c \<notin> {backslash, dquote, CHR 0x08, CHR 0x0C, CHR 0x0A, CHR 0x0D, CHR 0x09}"
        "32 \<le> code_point c \<and> code_point c \<le> 126"
    | (other) "c \<notin> {backslash, dquote, CHR 0x08, CHR 0x0C, CHR 0x0A, CHR 0x0D, CHR 0x09}"
        "\<not> (32 \<le> code_point c \<and> code_point c \<le> 126)"
    by blast
  then show ?thesis
  proof cases
    case special
    then show ?thesis
      by (auto simp: escape_char_def unescape_def)
  next
    case plain
    then show ?thesis
      by (simp add: escape_char_def)
  next
    case other
    then have e: "escape_char c = [backslash, CHR ''u'', CHR ''0'', CHR ''0'',
            hex_digit (code_point c div 16), hex_digit (code_point c mod 16)]"
      by (simp add: escape_char_def)
    show ?thesis
      by (simp add: e hex4_escape code_point_lt char_of_code_point)
  qed
qed

lemma lex_string_encode:
  "lex_string (concat (map escape_char s) @ dquote # rest) = Inr (s, rest)"
  by (induction s) (simp_all add: lex_string_escape cons_char_def)



lemma lex_encode_string:
  "lex (encode_string s @ rest) = app_tokens [TScalar (JString s)] (lex rest)"
  by (simp add: encode_string_def lex_string_encode app_tokens_simps)

lemma lex_item:
  assumes "\<And>rest. lex (pv v @ rest) = app_tokens (tv v) (lex rest)"
  shows "lex ((encode_string k @ '': '' @ pv v) @ rest)
         = app_tokens (TScalar (JString k) # TColon # tv v) (lex rest)"
  by (simp add: lex_encode_string assms app_tokens_simps)




declare run.simps(2) [simp del]












lemma those_map_Some: "those (map (\<lambda>x. Some (f x)) xs) = Some (map f xs)"
  by (induction xs) auto







section \<open>Properties of the contact book\<close>

lemma has_ci_match_member: "has_ci_match cs name \<longleftrightarrow> List.member (map lower (keys cs)) (lower name)"
  unfolding has_ci_match_def List.member_iff by (simp add: image_iff) metis

lemma find_key_None: "find_key cs name = None \<longleftrightarrow> \<not> has_ci_match cs name"
  by (auto simp: find_key_def has_ci_match_def find_None_iff)

lemma find_key_Some: "find_key cs name = Some key \<Longrightarrow> key \<in> set (keys cs) \<and> lower key = lower name"
  by (auto simp: find_key_def find_Some_iff)


lemma has_ci_match_image: "has_ci_match cs name \<longleftrightarrow> lower name \<in> lower ` set (keys cs)"
  unfolding has_ci_match_def by (simp add: image_iff) metis

lemma search_loop_filter:
  "search_loop q (lower q) items results = results @ filter (matches q) items"
  by (induction items arbitrary: results) (auto simp: matches_def str_in_sublist lower_sublist)

lemma matches_empty: "matches [] item"
  by (auto simp: matches_def ci_substring_def lower_def)

lemma contacts_py_print: "contacts (py_print b line) = contacts b"
  by (simp add: py_print_def)

lemma contacts_save: "contacts (save_contacts b) = contacts b"
  by (simp add: save_contacts_def py_print_def)

lemma edit_email_address_contacts:
  "edit_email_address b key email address = (ok, b') \<Longrightarrow>
   ok \<and> contacts b' = apply_field key ''address'' address (apply_field key ''email'' email (contacts b))"
  by (auto simp: edit_email_address_def Let_def contacts_py_print contacts_save apply_field_def
      set_field_def split: option.splits)

lemma edit_contact_contacts:
  assumes "edit_contact b name phone_number email address = (ok, b')"
  shows "(ok \<longrightarrow> (\<exists>key. find_key (contacts b) name = Some key \<and>
            contacts b' = apply_field key ''address'' address
              (apply_field key ''email'' email (apply_field key ''phone'' phone_number (contacts b)))))
       \<and> (\<not> ok \<longrightarrow> contacts b' = contacts b)"
proof (cases "find_key (contacts b) name")
  case None
  then show ?thesis using assms by (auto simp: edit_contact_def contacts_py_print)
next
  case (Some key)
  show ?thesis
  proof (cases "supplied phone_number")
    case None
    then show ?thesis
      using assms Some edit_email_address_contacts[of b key email address ok b']
      by (auto simp: edit_contact_def apply_field_def)
  next
    case (Some p)
    note p = this
    show ?thesis
    proof (cases "validate_phone p")
      case True
      then show ?thesis
        using assms \<open>find_key (contacts b) name = Some key\<close> p
          edit_email_address_contacts[of "set_field b key ''phone'' p" key email address ok b']
        by (auto simp: edit_contact_def apply_field_def set_field_def)
    next
      case False
      then show ?thesis
        using assms \<open>find_key (contacts b) name = Some key\<close> p
        by (auto simp: edit_contact_def contacts_py_print)
    qed
  qed
qed

lemma keys_apply_field: "keys (apply_field key f arg cs) = keys cs"
  by (simp add: apply_field_def keys_set_inner split: option.splits)

lemma dict_get_apply_field_other:
  "k \<noteq> key \<Longrightarrow> dict_get (apply_field key f arg cs) k = dict_get cs k"
  by (simp add: apply_field_def dict_get_set_inner split: option.splits)

lemma field_of_apply_field:
  "field_of (apply_field key f arg cs) k f' =
     (if k = key \<and> f' = f \<and> supplied arg \<noteq> None \<and> dict_get cs key \<noteq> None
      then supplied arg else field_of cs k f')"
  by (auto simp: apply_field_def field_of_def dict_get_set_inner dict_get_set split: option.splits)








section \<open>The claims\<close>

text \<open>
  Claim C1. \<open>validate_phone p\<close> is true exactly when at least ten of the characters left
  in \<open>p\<close>, once every hyphen, space and parenthesis is removed, are digits in the sense
  of \<open>str.isdigit\<close>. For a phone string of ASCII characters these are the decimal digits,
  so there the function is true exactly when at least ten decimal digits are left. The
  function is a function of its argument alone.
\<close>

theorem validate_phone_digit_count:
  "(validate_phone p \<longleftrightarrow> 10 \<le> length (filter isdigit (strip_separators p))) \<and>
   (list_all is_ascii p \<longrightarrow>
      (validate_phone p \<longleftrightarrow> 10 \<le> length (filter is_decimal_digit (strip_separators p))))"
  using validate_phone_count filter_ascii_digit[OF list_all_strip] by auto

text \<open>The two examples of the specification: ten digits are accepted, seven are not.\<close>

theorem validate_phone_digit_count_witness:
  "list_all is_ascii ''(555) 123-4567'' \<and> validate_phone ''(555) 123-4567'' \<and>
   10 \<le> length (filter is_decimal_digit (strip_separators ''(555) 123-4567'')) \<and>
   list_all is_ascii ''555-1234'' \<and> \<not> validate_phone ''555-1234'' \<and>
   \<not> 10 \<le> length (filter is_decimal_digit (strip_separators ''555-1234''))"
proof -
  have a: "list_all is_ascii ''(555) 123-4567''" by code_simp
  have v: "validate_phone ''(555) 123-4567''" by code_simp
  have b: "list_all is_ascii ''555-1234''" by code_simp
  have w: "\<not> validate_phone ''555-1234''" by code_simp
  from validate_phone_digit_count[of "''(555) 123-4567''"]
    validate_phone_digit_count[of "''555-1234''"] a v b w
  show ?thesis by blast
qed

text \<open>
  Ten superscript twos (code point 178) hold no decimal digit, yet \<open>str.isdigit\<close> is true
  of each, and the phone number is accepted.
\<close>

theorem validate_phone_superscript_counterexample:
  "validate_phone (replicate 10 (CHR 0xB2)) \<noteq>
   (10 \<le> length (filter is_decimal_digit (strip_separators (replicate 10 (CHR 0xB2)))))"
  by code_simp

text \<open>
  Claim C2. When the store has a case-insensitive match for \<open>name\<close> and the phone number
  supplied to \<open>edit_contact\<close> is not empty and fails \<open>validate_phone\<close>, the call returns
  \<open>False\<close> and its only effect is the printed notice: the store and the backing file are
  as before, whatever email and address were supplied.
\<close>

theorem edit_invalid_phone_changes_nothing:
  assumes "has_ci_match (contacts b) name" and "p \<noteq> []" and "\<not> validate_phone p"
  shows "edit_contact b name (Some p) email address =
           (False, b\<lparr>printed := printed b @ [''Invalid phone number format!'']\<rparr>)"
  using assms
  by (cases "find_key (contacts b) name")
     (auto simp: edit_contact_def find_key_None supplied_def py_print_def)

theorem edit_invalid_phone_changes_nothing_witness:
  "has_ci_match (contacts example_book) ''carol'' \<and> \<not> validate_phone ''555-1234'' \<and>
   edit_contact example_book ''carol'' (Some ''555-1234'') (Some ''new@example.com'')
       (Some ''1 Main St'') =
     (False, example_book\<lparr>printed := printed example_book @ [''Invalid phone number format!'']\<rparr>)"
proof -
  have m: "has_ci_match (contacts example_book) ''carol''" by code_simp
  have n: "''555-1234'' \<noteq> []" by simp
  have v: "\<not> validate_phone ''555-1234''" by code_simp
  from edit_invalid_phone_changes_nothing[OF m n v] m v show ?thesis by blast
qed

text \<open>
  Claim C3. When the store has a case-insensitive match for \<open>name\<close>, \<open>add_contact\<close>
  returns \<open>False\<close> and its only effect is the printed notice: the store and the backing
  file are as before. In particular a second \<open>add_contact\<close>, under a name that differs
  from a name just added only in letter case, is rejected.
\<close>

theorem add_existing_name_rejected:
  "(has_ci_match (contacts b) name \<longrightarrow>
      add_contact b now name phone email address =
        (False, b\<lparr>printed := printed b @ [''Contact '' @ quoted name @ '' already exists!'']\<rparr>)) \<and>
   (add_contact b now n1 phone1 email1 address1 = (True, b1) \<and> lower n2 = lower n1 \<longrightarrow>
      add_contact b1 now2 n2 phone2 email2 address2 =
        (False, b1\<lparr>printed := printed b1 @ [''Contact '' @ quoted n2 @ '' already exists!'']\<rparr>))"
proof -
  have first: "\<And>b now name phone email address. has_ci_match (contacts b) name \<Longrightarrow>
      add_contact b now name phone email address =
        (False, b\<lparr>printed := printed b @ [''Contact '' @ quoted name @ '' already exists!'']\<rparr>)"
    by (simp add: add_contact_def has_ci_match_member py_print_def)
  have "has_ci_match (contacts b1) n2"
    if "add_contact b now n1 phone1 email1 address1 = (True, b1)" and "lower n2 = lower n1"
  proof -
    from that(1) have "n1 \<in> set (keys (contacts b1))"
      by (auto simp: add_contact_def Let_def contacts_py_print contacts_save keys_dict_set
          split: if_splits)
    with that(2) show ?thesis
      by (auto simp: has_ci_match_def)
  qed
  with first show ?thesis by blast
qed

theorem add_existing_name_rejected_witness:
  "has_ci_match (contacts example_book) ''ALICE'' \<and>
   add_contact example_book example_clock ''ALICE'' ''5550001111'' '''' '''' =
     (False, example_book\<lparr>printed := printed example_book @
                [''Contact '' @ quoted ''ALICE'' @ '' already exists!'']\<rparr>)"
proof -
  have m: "has_ci_match (contacts example_book) ''ALICE''" by code_simp
  from add_existing_name_rejected[of example_book "''ALICE''" example_clock "''5550001111''" "''''" "''''"] m
  show ?thesis by blast
qed










text \<open>
  Claim C8. After a successful \<open>edit_contact\<close> the keys of the store are the keys it had,
  in the same order and spelled as before; every contact other than the one the name
  resolved to is as it was; of that contact, \<open>date_added\<close> is unchanged, and so is each of
  \<open>phone\<close>, \<open>email\<close> and \<open>address\<close> whose argument was not supplied (\<open>None\<close> or empty).
\<close>

theorem edit_contact_frame:
  assumes "edit_contact b name phone_number email address = (True, b')"
  shows "\<exists>key. find_key (contacts b) name = Some key \<and>
     keys (contacts b') = keys (contacts b) \<and>
     (\<forall>k. k \<noteq> key \<longrightarrow> dict_get (contacts b') k = dict_get (contacts b) k) \<and>
     field_of (contacts b') key ''date_added'' = field_of (contacts b) key ''date_added'' \<and>
     (supplied phone_number = None \<longrightarrow>
        field_of (contacts b') key ''phone'' = field_of (contacts b) key ''phone'') \<and>
     (supplied email = None \<longrightarrow>
        field_of (contacts b') key ''email'' = field_of (contacts b) key ''email'') \<and>
     (supplied address = None \<longrightarrow>
        field_of (contacts b') key ''address'' = field_of (contacts b) key ''address'')"
proof -
  from edit_contact_contacts[OF assms] obtain key where
    k: "find_key (contacts b) name = Some key" and
    c: "contacts b' = apply_field key ''address'' address
              (apply_field key ''email'' email (apply_field key ''phone'' phone_number (contacts b)))"
    by auto
  show ?thesis
    by (rule exI[of _ key])
       (simp add: k c keys_apply_field dict_get_apply_field_other field_of_apply_field)
qed

text \<open>
  The example of the specification: editing \<open>carol\<close> with a new email only. The call
  succeeds, the key stays \<open>Carol\<close>, the email is the new one, and the phone number, the
  date and the other contact are as before.
\<close>

theorem edit_contact_frame_witness:
  "fst (edit_contact example_book ''carol'' None (Some ''new@example.com'') (Some '''')) \<and>
   contacts (snd (edit_contact example_book ''carol'' None (Some ''new@example.com'') (Some ''''))) =
     [(''Alice'', [(''phone'', ''5551234567''), (''email'', ''''), (''address'', ''''),
                   (''date_added'', ''2024-01-15 10:30:00'')]),
      (''Carol'', [(''phone'', ''(555) 123-4567''), (''email'', ''new@example.com''),
                   (''address'', ''''), (''date_added'', ''2024-02-01 08:00:00'')])] \<and>
   (\<exists>key. find_key (contacts example_book) ''carol'' = Some key \<and>
     keys (contacts (snd (edit_contact example_book ''carol'' None (Some ''new@example.com'') (Some ''''))))
       = keys (contacts example_book) \<and>
     field_of (contacts (snd (edit_contact example_book ''carol'' None (Some ''new@example.com'') (Some ''''))))
         key ''date_added'' = field_of (contacts example_book) key ''date_added'' \<and>
     field_of (contacts (snd (edit_contact example_book ''carol'' None (Some ''new@example.com'') (Some ''''))))
         key ''phone'' = field_of (contacts example_book) key ''phone'' \<and>
     field_of (contacts (snd (edit_contact example_book ''carol'' None (Some ''new@example.com'') (Some ''''))))
         key ''address'' = field_of (contacts example_book) key ''address'')"
proof -
  let ?r = "edit_contact example_book ''carol'' None (Some ''new@example.com'') (Some '''')"
  have ok: "fst ?r" by code_simp
  have cs: "contacts (snd ?r) =
     [(''Alice'', [(''phone'', ''5551234567''), (''email'', ''''), (''address'', ''''),
                   (''date_added'', ''2024-01-15 10:30:00'')]),
      (''Carol'', [(''phone'', ''(555) 123-4567''), (''email'', ''new@example.com''),
                   (''address'', ''''), (''date_added'', ''2024-02-01 08:00:00'')])]"
    by code_simp
  have h: "?r = (True, snd ?r)"
    using ok by (cases ?r) simp
  have p: "supplied None = None" "supplied (Some '''') = None"
    by (simp_all add: supplied_def)
  from edit_contact_frame[OF h] p obtain key where
    "find_key (contacts example_book) ''carol'' = Some key"
    "keys (contacts (snd ?r)) = keys (contacts example_book)"
    "field_of (contacts (snd ?r)) key ''date_added'' = field_of (contacts example_book) key ''date_added''"
    "field_of (contacts (snd ?r)) key ''phone'' = field_of (contacts example_book) key ''phone''"
    "field_of (contacts (snd ?r)) key ''address'' = field_of (contacts example_book) key ''address''"
    by blast
  with ok cs show ?thesis by blast
qed




text \<open>
  Claim C10. \<open>search_contact\<close> with the empty query returns every item of the store, in
  the order of the store: the empty string is a substring of every name.
\<close>

theorem search_empty_query_lists_all: "search_contact b [] = contacts b"
  by (simp add: search_contact_def search_loop_filter matches_empty)

theorem search_empty_query_lists_all_witness:
  "search_contact example_book [] =
     [(''Alice'', [(''phone'', ''5551234567''), (''email'', ''''), (''address'', ''''),
                   (''date_added'', ''2024-01-15 10:30:00'')]),
      (''Carol'', [(''phone'', ''(555) 123-4567''), (''email'', ''c@example.com''),
                   (''address'', ''''), (''date_added'', ''2024-02-01 08:00:00'')])]"
  using search_empty_query_lists_all[of example_book] by (simp add: example_book_def)

end
